theory Spec2Isabelle
  imports Complex_Main
begin

chapter \<open>The trading service and the wallet service of alphintra_bot\<close>

text \<open>
  A shallow embedding of the order, position and trade bookkeeping of the trading
  service (trading_manager.py over bot_models.py), of the signal processor's execution
  step, of the position monitoring step of the bot, of the Bollinger breakout strategy
  with the ATR indicator it relies on, of the log endpoint of the control API, and of
  the environment normalization of the wallet service. The definitions come first, in
  the order of the source files; the properties follow.
\<close>

section \<open>Python values\<close>

text \<open>
  The trading service and the wallet service are Python programs. Their \<open>float\<close>
  values (prices, quantities, confidences) are modelled as real numbers: the theorems
  below are about the arithmetic the code writes down, not about binary rounding.
  A nullable value (\<open>None\<close> or a float) is a \<open>real option\<close>.
  Every exception a modelled function can raise is a value of \<open>error\<close>.
\<close>

datatype error =
    AttributeError
  | TypeError
  | ZeroDivisionError
  | KeyError string
  | HTTPException nat

text \<open>Truthiness of a nullable float: \<open>None\<close> and \<open>0.0\<close> are false.\<close>

definition truthy :: "real option \<Rightarrow> bool" where
  "truthy v = (case v of None \<Rightarrow> False | Some x \<Rightarrow> x \<noteq> 0)"

text \<open>\<open>a or b\<close> on nullable floats.\<close>

definition py_or :: "real option \<Rightarrow> real option \<Rightarrow> real option" where
  "py_or a b = (if truthy a then a else b)"

text \<open>\<open>float(v)\<close>: \<open>float(None)\<close> raises \<open>TypeError\<close>.\<close>

definition py_float :: "real option \<Rightarrow> error + real" where
  "py_float v = (case v of None \<Rightarrow> Inl TypeError | Some x \<Rightarrow> Inr x)"

text \<open>\<open>a / b\<close> on floats raises \<open>ZeroDivisionError\<close> when \<open>b\<close> is zero.\<close>

definition py_div :: "real \<Rightarrow> real \<Rightarrow> error + real" where
  "py_div a b = (if b = 0 then Inl ZeroDivisionError else Inr (a / b))"

text \<open>
  An attribute of a Python object that the class does not declare: it is absent until
  some code assigns it, and reading it while absent raises \<open>AttributeError\<close>.
\<close>

datatype 'a attr = Unset | Bound 'a

definition getattr :: "'a attr \<Rightarrow> error + 'a" where
  "getattr a = (case a of Unset \<Rightarrow> Inl AttributeError | Bound v \<Rightarrow> Inr v)"

text \<open>
  A character is a code point below 256. \<open>str.upper\<close> is only applied to ASCII
  text (\<open>uuid4().hex\<close>, and the sides \<open>buy\<close> and \<open>sell\<close>), where it moves the small
  letters 32 down.
\<close>

definition py_upper_char :: "char \<Rightarrow> char" where
  "py_upper_char c =
     (let n = of_char c :: nat in if 97 \<le> n \<and> n \<le> 122 then char_of (n - 32) else c)"

definition py_upper :: "string \<Rightarrow> string" where
  "py_upper s = map py_upper_char s"

text \<open>
  The first row of a query result is \<open>List.find\<close>. The object returned by
  \<open>first()\<close> is the row itself: mutating it and committing rewrites that row, and
  \<open>db.delete\<close> removes it.
\<close>

fun update_first :: "('a \<Rightarrow> bool) \<Rightarrow> ('a \<Rightarrow> 'a) \<Rightarrow> 'a list \<Rightarrow> 'a list" where
  "update_first P f [] = []"
| "update_first P f (x # xs) = (if P x then f x # xs else x # update_first P f xs)"

fun delete_first :: "('a \<Rightarrow> bool) \<Rightarrow> 'a list \<Rightarrow> 'a list" where
  "delete_first P [] = []"
| "delete_first P (x # xs) = (if P x then xs else x # delete_first P xs)"


section \<open>Trading data models (bot_models.py)\<close>

text \<open>
  One record per mapped class, one field per declared column; the surrogate key
  \<open>id\<close> of the three child tables is left out, since no modelled operation reads it.
  Timestamps are natural numbers (an abstract clock). Fields that several classes share
  carry a prefix: \<open>o_\<close> for Order, \<open>p_\<close> for Position, \<open>t_\<close> for TradeHistory.

  The class Order declares the columns below and no column \<open>average_price\<close>.
\<close>

record order =
  o_bot_execution_id :: nat
  o_user_id :: nat
  order_id :: string
  o_symbol :: string
  o_side :: string
  order_type :: string
  o_price :: "real option"
  o_quantity :: real
  filled_quantity :: "real option"
  o_status :: string
  created_at :: nat
  filled_at :: "nat option"

record position =
  p_bot_execution_id :: nat
  p_user_id :: nat
  p_symbol :: string
  entry_price :: real
  p_quantity :: real
  current_price :: "real option"
  unrealized_pnl :: "real option"
  stop_loss :: "real option"
  take_profit :: "real option"
  opened_at :: nat

record trade_history =
  t_bot_execution_id :: nat
  t_user_id :: nat
  t_symbol :: string
  buy_price :: real
  sell_price :: real
  t_quantity :: real
  pnl :: real
  result :: string
  t_opened_at :: nat
  closed_at :: nat

text \<open>
  The trading database: the three child tables, and for each bot execution id the
  \<open>last_run\<close> stamp of its BotExecution row (\<open>None\<close> when there is no such row,
  \<open>Some None\<close> when the row has never been stamped).
\<close>

record db =
  tbl_orders :: "order list"
  tbl_positions :: "position list"
  tbl_trade_history :: "trade_history list"
  tbl_last_run :: "nat \<Rightarrow> nat option option"

definition empty_db :: db where
  "empty_db = \<lparr>tbl_orders = [], tbl_positions = [], tbl_trade_history = [],
     tbl_last_run = (\<lambda>_. None)\<rparr>"

text \<open>
  The column \<open>bot_execution_id\<close> of the three child tables is a foreign key into
  \<open>bot_executions\<close>: inserting a child row for an execution that has no row fails.
\<close>

definition has_bot_execution :: "db \<Rightarrow> nat \<Rightarrow> bool" where
  "has_bot_execution d exec_id \<longleftrightarrow> tbl_last_run d exec_id \<noteq> None"


section \<open>Trade lifecycle manager (trading_manager.py)\<close>

record trading_manager =
  bot_execution_id :: nat
  user_id :: nat

text \<open>
  The filter of both position queries:
  \<open>Position.bot_execution_id == self.bot_execution_id, Position.symbol == symbol\<close>.
\<close>

definition position_of :: "trading_manager \<Rightarrow> string \<Rightarrow> position \<Rightarrow> bool" where
  "position_of tm symbol p \<longleftrightarrow> p_bot_execution_id p = bot_execution_id tm \<and> p_symbol p = symbol"

text \<open>
  \<open>TradingManager._open_position\<close>. The entry price arrives from \<open>fill_order\<close>,
  where it can be \<open>None\<close>; then the multiplication (existing position) or the
  \<open>:.2f\<close> format of the log line (new position) raises \<open>TypeError\<close>.
  The argument \<open>now\<close> is the clock value the column default of \<open>opened_at\<close> reads.
\<close>

definition open_position ::
  "trading_manager \<Rightarrow> nat \<Rightarrow> db \<Rightarrow> string \<Rightarrow> real option \<Rightarrow> real \<Rightarrow> real option \<Rightarrow> real option
     \<Rightarrow> error + db" where
  "open_position tm now d symbol entry quantity sl tp =
     (case entry of
        None \<Rightarrow> Inl TypeError
      | Some entry_price' \<Rightarrow>
          (case find (position_of tm symbol) (tbl_positions d) of
             Some p \<Rightarrow>
               (let total_value = entry_price p * p_quantity p + entry_price' * quantity;
                    total_quantity = p_quantity p + quantity
                in case py_div total_value total_quantity of
                     Inl e \<Rightarrow> Inl e
                   | Inr avg \<Rightarrow>
                       Inr (d\<lparr>tbl_positions :=
                              update_first (position_of tm symbol)
                                (\<lambda>q. q\<lparr>entry_price := avg, p_quantity := total_quantity\<rparr>)
                                (tbl_positions d)\<rparr>))
           | None \<Rightarrow>
               Inr (d\<lparr>tbl_positions := tbl_positions d @
                      [\<lparr>p_bot_execution_id = bot_execution_id tm,
                        p_user_id = user_id tm,
                        p_symbol = symbol,
                        entry_price = entry_price',
                        p_quantity = quantity,
                        current_price = Some entry_price',
                        unrealized_pnl = Some 0,
                        stop_loss = sl,
                        take_profit = tp,
                        opened_at = now\<rparr>]\<rparr>)))"

text \<open>
  \<open>TradingManager._close_position\<close>. Without a position it logs a warning and
  returns; an exit price of \<open>None\<close> then raises nothing. The trade row takes the
  requested quantity, whatever the position holds.
\<close>

definition close_position ::
  "trading_manager \<Rightarrow> nat \<Rightarrow> db \<Rightarrow> string \<Rightarrow> real option \<Rightarrow> real \<Rightarrow> error + db" where
  "close_position tm now d symbol exit quantity =
     (case find (position_of tm symbol) (tbl_positions d) of
        None \<Rightarrow> Inr d
      | Some p \<Rightarrow>
          (case exit of
             None \<Rightarrow> Inl TypeError
           | Some exit_price \<Rightarrow>
               (let pnl' = (exit_price - entry_price p) * quantity;
                    result' = (if pnl' > 0 then ''PROFIT'' else ''LOSS'');
                    trade = \<lparr>t_bot_execution_id = bot_execution_id tm,
                             t_user_id = user_id tm,
                             t_symbol = symbol,
                             buy_price = entry_price p,
                             sell_price = exit_price,
                             t_quantity = quantity,
                             pnl = pnl',
                             result = result',
                             t_opened_at = opened_at p,
                             closed_at = now\<rparr>;
                    d' = d\<lparr>tbl_trade_history := tbl_trade_history d @ [trade]\<rparr>
                in if quantity \<ge> p_quantity p
                   then Inr (d'\<lparr>tbl_positions :=
                               delete_first (position_of tm symbol) (tbl_positions d)\<rparr>)
                   else Inr (d'\<lparr>tbl_positions :=
                               update_first (position_of tm symbol)
                                 (\<lambda>q. q\<lparr>p_quantity := p_quantity q - quantity\<rparr>)
                                 (tbl_positions d)\<rparr>))))"


text \<open>
  An Order object inside a session: the row of mapped columns, and the attribute
  \<open>average_price\<close>, which \<open>partial_fill\<close> and \<open>fill_order\<close> read and assign.
  The class declares no such column, so the attribute lives on the Python object only:
  an object that a query has just loaded does not have it, a commit does not store it.
\<close>

record order_instance =
  row :: order
  average_price :: "real option attr"

definition has_order_id :: "string \<Rightarrow> order \<Rightarrow> bool" where
  "has_order_id oid r \<longleftrightarrow> order_id r = oid"

text \<open>\<open>db.query(Order).filter(Order.order_id == order_id).first()\<close>\<close>

definition query_order :: "db \<Rightarrow> string \<Rightarrow> order_instance option" where
  "query_order d oid =
     (case find (has_order_id oid) (tbl_orders d) of
        None \<Rightarrow> None
      | Some r \<Rightarrow> Some \<lparr>row = r, average_price = Unset\<rparr>)"

text \<open>\<open>db.commit()\<close> with a modified Order object: the mapped columns are written back.\<close>

definition commit_order :: "db \<Rightarrow> string \<Rightarrow> order_instance \<Rightarrow> db" where
  "commit_order d oid ord =
     d\<lparr>tbl_orders := update_first (has_order_id oid) (\<lambda>_. row ord) (tbl_orders d)\<rparr>"

text \<open>
  \<open>TradingManager.create_order\<close>. The argument \<open>uuid_hex\<close> is the value of
  \<open>uuid.uuid4().hex\<close>. The insert fails when the manager's bot execution has no row
  (foreign key) or when a row with the same \<open>order_id\<close> exists (unique column); then
  the session is rolled back and \<open>None\<close> is returned. The column default sets
  \<open>filled_quantity\<close> to 0.
\<close>

definition create_order ::
  "trading_manager \<Rightarrow> nat \<Rightarrow> db \<Rightarrow> string \<Rightarrow> string \<Rightarrow> string \<Rightarrow> string \<Rightarrow> real \<Rightarrow> real option
     \<Rightarrow> string option \<times> db" where
  "create_order tm now d uuid_hex symbol side otype quantity price =
     (let oid = ''ORD-'' @ py_upper (take 12 uuid_hex)
      in if \<not> has_bot_execution d (bot_execution_id tm) then (None, d)
         else if find (has_order_id oid) (tbl_orders d) \<noteq> None then (None, d)
         else (Some oid,
               d\<lparr>tbl_orders := tbl_orders d @
                  [\<lparr>o_bot_execution_id = bot_execution_id tm,
                    o_user_id = user_id tm,
                    order_id = oid,
                    o_symbol = symbol,
                    o_side = side,
                    order_type = otype,
                    o_price = price,
                    o_quantity = quantity,
                    filled_quantity = Some 0,
                    o_status = ''PENDING'',
                    created_at = now,
                    filled_at = None\<rparr>]\<rparr>))"

text \<open>
  The body of the \<open>try\<close> block of \<open>TradingManager.partial_fill\<close>, on the Order object
  the query returned. Each \<open>Inl\<close> is an exception that the \<open>except\<close> clause catches.
\<close>

definition partial_fill_body ::
  "nat \<Rightarrow> order_instance \<Rightarrow> real \<Rightarrow> real \<Rightarrow> error + bool \<times> order_instance" where
  "partial_fill_body now ord filled_qty filled_price =
     (case py_float (py_or (filled_quantity (row ord)) (Some 0)) of
        Inl e \<Rightarrow> Inl e
      | Inr previous_filled \<Rightarrow>
     (case getattr (average_price ord) of
        Inl e \<Rightarrow> Inl e
      | Inr avg \<Rightarrow>
     (case py_float (py_or avg (o_price (row ord))) of
        Inl e \<Rightarrow> Inl e
      | Inr previous_avg_price \<Rightarrow>
     (let new_filled = previous_filled + filled_qty
      in case py_div (previous_filled * previous_avg_price + filled_qty * filled_price)
                new_filled of
           Inl e \<Rightarrow> Inl e
         | Inr new_avg_price \<Rightarrow>
             (let r1 = (row ord)\<lparr>filled_quantity := Some new_filled\<rparr>;
                  is_complete = (new_filled \<ge> o_quantity (row ord))
              in if is_complete
                 then Inr (True, \<lparr>row = r1\<lparr>o_status := ''FILLED'', filled_at := Some now\<rparr>,
                                  average_price = Bound (Some new_avg_price)\<rparr>)
                 else Inr (False, \<lparr>row = r1\<lparr>o_status := ''PARTIALLY_FILLED''\<rparr>,
                                   average_price = Bound (Some new_avg_price)\<rparr>))))))"

text \<open>
  \<open>TradingManager.partial_fill\<close>: no order, or any exception, returns \<open>False\<close> and
  leaves the database as it was (rollback).
\<close>

definition partial_fill :: "nat \<Rightarrow> db \<Rightarrow> string \<Rightarrow> real \<Rightarrow> real \<Rightarrow> bool \<times> db" where
  "partial_fill now d oid filled_qty filled_price =
     (case query_order d oid of
        None \<Rightarrow> (False, d)
      | Some ord \<Rightarrow>
          (case partial_fill_body now ord filled_qty filled_price of
             Inl e \<Rightarrow> (False, d)
           | Inr (is_complete, ord') \<Rightarrow> (is_complete, commit_order d oid ord')))"

text \<open>
  \<open>db.commit()\<close> at the end of \<open>fill_order\<close>: \<open>d\<close> is the database before the
  call, \<open>d'\<close> the session's state. A Position or TradeHistory row that the session has
  added is inserted now, for the manager's bot execution; without a row for that
  execution the insert fails and the \<open>except\<close> clause rolls everything back.
\<close>

definition commit_fill :: "trading_manager \<Rightarrow> db \<Rightarrow> db \<Rightarrow> db" where
  "commit_fill tm d d' =
     (if (length (tbl_positions d) < length (tbl_positions d')
            \<or> length (tbl_trade_history d) < length (tbl_trade_history d'))
          \<and> tbl_last_run d (bot_execution_id tm) = None
      then d else d')"

text \<open>
  \<open>TradingManager.fill_order\<close>. The function assigns \<open>average_price\<close> before it reads
  it. Any exception of the position step rolls the whole session back.
\<close>

definition fill_order ::
  "trading_manager \<Rightarrow> nat \<Rightarrow> db \<Rightarrow> string \<Rightarrow> real option \<Rightarrow> real option \<Rightarrow> real option \<Rightarrow> db" where
  "fill_order tm now d oid filled_price sl tp =
     (case query_order d oid of
        None \<Rightarrow> d
      | Some ord \<Rightarrow>
          (let r1 = (row ord)\<lparr>o_status := ''FILLED'',
                                filled_quantity := Some (o_quantity (row ord)),
                                filled_at := Some now\<rparr>;
               ord' = (if truthy filled_price
                       then \<lparr>row = r1\<lparr>o_price := filled_price\<rparr>,
                             average_price = Bound filled_price\<rparr>
                       else \<lparr>row = r1, average_price = Bound (o_price r1)\<rparr>)
           in case getattr (average_price ord') of
                Inl e \<Rightarrow> d
              | Inr actual_price \<Rightarrow>
                  (let d1 = commit_order d oid ord'
                   in if o_side (row ord') = ''BUY''
                      then (case open_position tm now d1 (o_symbol (row ord')) actual_price
                                   (o_quantity (row ord')) sl tp of
                              Inl e \<Rightarrow> d | Inr d2 \<Rightarrow> commit_fill tm d d2)
                      else if o_side (row ord') = ''SELL''
                      then (case close_position tm now d1 (o_symbol (row ord')) actual_price
                                   (o_quantity (row ord')) of
                              Inl e \<Rightarrow> d | Inr d2 \<Rightarrow> commit_fill tm d d2)
                      else d1)))"


text \<open>\<open>TradingManager.update_bot_last_run\<close>\<close>

definition update_bot_last_run :: "trading_manager \<Rightarrow> nat \<Rightarrow> db \<Rightarrow> db" where
  "update_bot_last_run tm now d =
     (case tbl_last_run d (bot_execution_id tm) of
        None \<Rightarrow> d
      | Some _ \<Rightarrow> d\<lparr>tbl_last_run := (tbl_last_run d)(bot_execution_id tm := Some (Some now))\<rparr>)"








section \<open>Strategy interface (strategies/base_strategy.py)\<close>

datatype signal_type = BUY | SELL | HOLD

text \<open>
  The dataclass TradingSignal without its free-form \<open>metadata\<close>, which no modelled
  code reads. The type \<open>'f\<close> is the type of a float in the three price fields: a
  strategy can compute them from a table cell, which may be NaN, so its signals carry
  cells (see the strategy section); the signal processor is modelled on signals whose
  prices are numbers.
\<close>

record 'f trading_signal =
  signal :: signal_type
  confidence :: real
  reason :: string
  sg_entry_price :: "'f option"
  sg_stop_loss :: "'f option"
  sg_take_profit :: "'f option"


section \<open>Signal processor and order executor (signal_processor.py)\<close>

text \<open>
  The order dictionary the venue returns: for each key the code reads, whether the key
  is present and with which value, and whether the dictionary has any other key (such
  as \<open>filled\<close> and \<open>status\<close>, which are only logged).
  \<open>order.get(key, default)\<close> gives the default only when the key is absent; a key that
  is present with the value \<open>None\<close> gives \<open>None\<close>. The dictionary is true when it has
  a key.
\<close>

record venue_order =
  vo_id :: "string option attr"
  vo_price :: "real option attr"
  vo_amount :: "real option attr"
  vo_other_keys :: bool

definition dict_get :: "'a attr \<Rightarrow> 'a \<Rightarrow> 'a" where
  "dict_get v dflt = (case v of Unset \<Rightarrow> dflt | Bound x \<Rightarrow> x)"

definition dict_empty :: "venue_order \<Rightarrow> bool" where
  "dict_empty ord \<longleftrightarrow>
     vo_id ord = Unset \<and> vo_price ord = Unset \<and> vo_amount ord = Unset \<and> \<not> vo_other_keys ord"

text \<open>
  The exchange connectivity manager as the processor sees it: what
  \<open>get_testnet_balance('USDT')\<close> returns, and what \<open>place_market_order\<close> returns
  for a symbol, a side and an amount (\<open>None\<close> when the venue call failed).
\<close>

record exchange =
  testnet_balance :: "real option"
  market_order :: "string \<Rightarrow> string \<Rightarrow> real \<Rightarrow> venue_order option"

text \<open>One entry of the processor's in-memory position dictionary.\<close>

record tracked_position =
  tp_side :: string
  tp_entry_price :: "real option"
  tp_entry_time :: nat
  tp_order_id :: "string option"
  tp_amount :: "real option"
  tp_stop_loss :: "real option"
  tp_take_profit :: "real option"
  tp_confidence :: real

text \<open>
  The processor: its constructor arguments, its position dictionary, the trading
  database its manager writes to, and the market orders it has submitted to the venue
  so far (symbol, side, amount), oldest first.
\<close>

record signal_processor =
  sp_bot_execution_id :: "nat option"
  sp_user_id :: "nat option"
  positions :: "string \<Rightarrow> tracked_position option"
  sp_db :: db
  submitted :: "(string \<times> string \<times> real) list"

text \<open>
  The constructor sets \<open>self.min_confidence = 50\<close>, and nothing assigns it again.
  It creates a trading manager only \<open>if bot_execution_id and user_id\<close>: both
  given and non-zero.
\<close>

definition min_confidence :: real where
  "min_confidence = 50"

definition new_signal_processor :: "nat option \<Rightarrow> nat option \<Rightarrow> db \<Rightarrow> signal_processor" where
  "new_signal_processor exec_id uid d =
     \<lparr>sp_bot_execution_id = exec_id, sp_user_id = uid,
      positions = (\<lambda>_. None), sp_db = d, submitted = []\<rparr>"

definition trading_manager_of :: "signal_processor \<Rightarrow> trading_manager option" where
  "trading_manager_of sp =
     (case (sp_bot_execution_id sp, sp_user_id sp) of
        (Some e, Some u) \<Rightarrow>
          if e \<noteq> 0 \<and> u \<noteq> 0 then Some \<lparr>bot_execution_id = e, user_id = u\<rparr> else None
      | _ \<Rightarrow> None)"

text \<open>
  \<open>round(x, n)\<close> rounds a binary float to \<open>n\<close> decimals. What it returns depends on
  the float's binary expansion, so it is not computed here: the functions that round
  take Python's \<open>round\<close> as their first argument.
\<close>

type_synonym py_round = "real \<Rightarrow> nat \<Rightarrow> real"

text \<open>
  \<open>SignalProcessor._calculate_order_size\<close>. A balance of \<open>None\<close> makes the
  multiplication raise; the function catches it and returns 0.
\<close>

definition calculate_order_size :: "py_round \<Rightarrow> exchange \<Rightarrow> real trading_signal \<Rightarrow> real" where
  "calculate_order_size round' exch sg =
     (case testnet_balance exch of
        None \<Rightarrow> 0
      | Some balance \<Rightarrow>
          (let risk_percentage = 0.05 + confidence sg / 100 * 0.05;
               trade_amount = balance * risk_percentage;
               quantity = (case sg_entry_price sg of
                             Some entry \<Rightarrow> if entry \<noteq> 0 \<and> entry > 0 then trade_amount / entry else 0
                           | None \<Rightarrow> 0)
           in if quantity < 0.001 then round' quantity 6
              else if quantity < 1 then round' quantity 4
              else round' quantity 2))"

text \<open>\<open>SignalProcessor._should_execute\<close>\<close>

definition should_execute :: "signal_processor \<Rightarrow> string \<Rightarrow> real trading_signal \<Rightarrow> bool" where
  "should_execute sp symbol sg =
     (case signal sg of
        BUY \<Rightarrow> (case positions sp symbol of
                  Some cur \<Rightarrow> if tp_side cur = ''buy'' then False else True
                | None \<Rightarrow> True)
      | SELL \<Rightarrow> (case positions sp symbol of
                   None \<Rightarrow> False
                 | Some cur \<Rightarrow> if tp_side cur = ''sell'' then False else True)
      | HOLD \<Rightarrow> True)"

text \<open>\<open>SignalProcessor._update_position\<close>\<close>

definition update_position ::
  "signal_processor \<Rightarrow> nat \<Rightarrow> string \<Rightarrow> real trading_signal \<Rightarrow> venue_order \<Rightarrow> signal_processor" where
  "update_position sp now symbol sg ord =
     sp\<lparr>positions := (positions sp)(symbol :=
          Some \<lparr>tp_side = (if signal sg = BUY then ''buy'' else ''sell''),
                tp_entry_price = sg_entry_price sg,
                tp_entry_time = now,
                tp_order_id = dict_get (vo_id ord) None,
                tp_amount = dict_get (vo_amount ord) None,
                tp_stop_loss = sg_stop_loss sg,
                tp_take_profit = sg_take_profit sg,
                tp_confidence = confidence sg\<rparr>)\<rparr>"

text \<open>
  The database part of \<open>execute_signal\<close>, run when a trading manager is attached:
  create the order record, fill it at once, stamp the bot's last run.
\<close>

definition record_order ::
  "trading_manager \<Rightarrow> nat \<Rightarrow> string \<Rightarrow> db \<Rightarrow> string \<Rightarrow> string \<Rightarrow> real \<Rightarrow> real trading_signal
     \<Rightarrow> venue_order \<Rightarrow> db" where
  "record_order tm now uuid_hex d symbol side order_size sg ord =
     (case create_order tm now d uuid_hex symbol (py_upper side) ''MARKET'' order_size
             (sg_entry_price sg) of
        (None, d1) \<Rightarrow> d1
      | (Some oid, d1) \<Rightarrow>
          update_bot_last_run tm now
            (fill_order tm now d1 oid (dict_get (vo_price ord) (sg_entry_price sg))
               (if side = ''buy'' then sg_stop_loss sg else None)
               (if side = ''buy'' then sg_take_profit sg else None)))"

text \<open>
  \<open>SignalProcessor.execute_signal\<close>. The arguments \<open>now\<close> and \<open>uuid_hex\<close> are the
  clock and the fresh uuid the call reads. A reply of \<open>None\<close> or of an empty
  dictionary is a failed order (\<open>if order:\<close>). The success log formats the order's
  price with \<open>:,.2f\<close>; on \<open>None\<close> that raises \<open>TypeError\<close>, which the \<open>except\<close>
  clause turns into \<open>False\<close> after the order has been submitted and recorded.
\<close>

definition execute_signal ::
  "py_round \<Rightarrow> exchange \<Rightarrow> nat \<Rightarrow> string \<Rightarrow> signal_processor \<Rightarrow> string \<Rightarrow> real trading_signal
     \<Rightarrow> real option \<Rightarrow> bool \<times> signal_processor" where
  "execute_signal round' exch now uuid_hex sp symbol sg order_size =
     (if signal sg = HOLD then (False, sp)
      else if confidence sg < min_confidence then (False, sp)
      else
        (let side = (if signal sg = BUY then ''buy'' else ''sell'');
             order_size' = (case order_size of
                              None \<Rightarrow> calculate_order_size round' exch sg
                            | Some given \<Rightarrow> given)
         in if order_size' \<le> 0 then (False, sp)
            else if \<not> should_execute sp symbol sg then (False, sp)
            else
              (let sp1 = sp\<lparr>submitted := submitted sp @ [(symbol, side, order_size')]\<rparr>
               in case market_order exch symbol side order_size' of
                    None \<Rightarrow> (False, sp1)
                  | Some ord \<Rightarrow>
                      if dict_empty ord then (False, sp1)
                      else
                      (let sp2 = (case trading_manager_of sp1 of
                                    None \<Rightarrow> sp1
                                  | Some tm \<Rightarrow>
                                      sp1\<lparr>sp_db := record_order tm now uuid_hex (sp_db sp1)
                                                      symbol side order_size' sg ord\<rparr>);
                           sp3 = update_position sp2 now symbol sg ord
                       in case dict_get (vo_price ord) (sg_entry_price sg) of
                            None \<Rightarrow> (False, sp3)
                          | Some shown_price \<Rightarrow> (True, sp3)))))"


section \<open>Position monitoring (bot.py)\<close>

text \<open>
  The forced exit of the monitoring loop is the call
  \<open>self.signal_processor._execute_sell_order(symbol, current_price, reason)\<close>.
  A sell helper takes these three arguments and gives its result, or the exception it
  raises. The class SignalProcessor defines \<open>process_symbol\<close>, \<open>execute_signal\<close>,
  \<open>_calculate_order_size\<close>, \<open>_should_execute\<close>, \<open>_update_position\<close>,
  \<open>_log_signal\<close> and \<open>get_positions_summary\<close>, and nothing assigns another attribute
  to its objects: a processor has no attribute \<open>_execute_sell_order\<close>.
\<close>

type_synonym sell_helper = "string \<Rightarrow> real \<Rightarrow> string \<Rightarrow> error + bool"

definition execute_sell_order :: "sell_helper attr" where
  "execute_sell_order = Unset"

text \<open>\<open>if success: positions_closed += 1\<close>\<close>

definition closed_count :: "bool \<Rightarrow> nat" where
  "closed_count success = (if success then 1 else 0)"

text \<open>
  The forced exit with a reason: the method is looked up, then called. The result is
  the sell calls made (symbol, price, reason) and the number of positions counted as
  closed, or the exception of the lookup or of the call.
\<close>

definition forced_sell ::
  "string \<Rightarrow> real \<Rightarrow> string \<Rightarrow> error + (string \<times> real \<times> string) list \<times> nat" where
  "forced_sell symbol current_price' reason' =
     (case getattr execute_sell_order of
        Inl e \<Rightarrow> Inl e
      | Inr sell \<Rightarrow>
          (case sell symbol current_price' reason' of
             Inl e \<Rightarrow> Inl e
           | Inr success \<Rightarrow> Inr ([(symbol, current_price', reason')], closed_count success)))"

text \<open>The two conditions of the loop body:
  \<open>stop_loss and current_price <= stop_loss\<close> and
  \<open>take_profit and current_price >= take_profit\<close>.\<close>

definition stop_loss_reached :: "position \<Rightarrow> real \<Rightarrow> bool" where
  "stop_loss_reached p current_price' \<longleftrightarrow>
     truthy (stop_loss p) \<and> (case stop_loss p of Some sl \<Rightarrow> current_price' \<le> sl | None \<Rightarrow> False)"

definition take_profit_reached :: "position \<Rightarrow> real \<Rightarrow> bool" where
  "take_profit_reached p current_price' \<longleftrightarrow>
     truthy (take_profit p) \<and> (case take_profit p of Some tp \<Rightarrow> current_price' \<ge> tp | None \<Rightarrow> False)"

text \<open>
  The \<open>try\<close> block of one iteration of the loop of \<open>TradingBot._monitor_positions\<close>, for
  one Position row. \<open>price\<close> is what \<open>data_fetcher.get_latest_price(symbol)\<close>
  returned; without a price (\<open>None\<close> or 0) the iteration is skipped. The result is the
  row after the iteration, the sell calls made and the number of positions counted as
  closed, or the exception raised.
\<close>

definition monitor_body ::
  "real option \<Rightarrow> position \<Rightarrow> error + position \<times> (string \<times> real \<times> string) list \<times> nat" where
  "monitor_body price p =
     (case price of
        None \<Rightarrow> Inr (p, [], 0)
      | Some current_price' \<Rightarrow>
          if current_price' = 0 then Inr (p, [], 0)
          else
            (let current_pnl = (current_price' - entry_price p) * p_quantity p
             in case py_div (current_price' - entry_price p) (entry_price p) of
                  Inl e \<Rightarrow> Inl e
                | Inr ratio \<Rightarrow>
                    if stop_loss_reached p current_price'
                    then (case forced_sell (p_symbol p) current_price' ''Stop Loss Triggered'' of
                            Inl e \<Rightarrow> Inl e
                          | Inr (calls, n_closed) \<Rightarrow> Inr (p, calls, n_closed))
                    else if take_profit_reached p current_price'
                    then (case forced_sell (p_symbol p) current_price' ''Take Profit Triggered'' of
                            Inl e \<Rightarrow> Inl e
                          | Inr (calls, n_closed) \<Rightarrow> Inr (p, calls, n_closed))
                    else Inr (p\<lparr>current_price := Some current_price',
                                unrealized_pnl := Some current_pnl\<rparr>, [], 0)))"

text \<open>
  One iteration with its \<open>except Exception\<close> clause: an exception is logged and the
  loop goes on to the next row; the row is as it was.
\<close>

definition monitor_position ::
  "real option \<Rightarrow> position \<Rightarrow> position \<times> (string \<times> real \<times> string) list \<times> nat" where
  "monitor_position price p =
     (case monitor_body price p of Inl e \<Rightarrow> (p, [], 0) | Inr r \<Rightarrow> r)"

text \<open>The loop over the rows of the execution. Rows of other executions are not queried.\<close>

fun monitor_rows ::
  "nat \<Rightarrow> (string \<Rightarrow> real option) \<Rightarrow> position list
     \<Rightarrow> position list \<times> (string \<times> real \<times> string) list \<times> nat" where
  "monitor_rows exec_id latest_price [] = ([], [], 0)"
| "monitor_rows exec_id latest_price (p # ps) =
     (case monitor_rows exec_id latest_price ps of
        (ps', calls, n_closed) \<Rightarrow>
          if p_bot_execution_id p = exec_id
          then (case monitor_position (latest_price (p_symbol p)) p of
                  (p', calls', n_closed') \<Rightarrow> (p' # ps', calls' @ calls, n_closed' + n_closed))
          else (p # ps', calls, n_closed))"

text \<open>
  \<open>TradingBot._monitor_positions\<close>: the number of positions closed, the database after
  the loop, and the sell calls made.
\<close>

definition monitor_positions ::
  "nat \<Rightarrow> (string \<Rightarrow> real option) \<Rightarrow> db \<Rightarrow> nat \<times> db \<times> (string \<times> real \<times> string) list" where
  "monitor_positions exec_id latest_price d =
     (case monitor_rows exec_id latest_price (tbl_positions d) of
        (ps', calls, n_closed) \<Rightarrow> (n_closed, d\<lparr>tbl_positions := ps'\<rparr>, calls))"


section \<open>Indicator tables (indicators.py)\<close>

text \<open>
  A pandas table: the number of its rows and its columns, by name, in order. A cell is a
  number or NaN (\<open>None\<close>); indicator columns start with NaN cells. Every column of a
  well-formed table has \<open>df_index\<close> cells.
\<close>

type_synonym cell = "real option"

record dataframe =
  df_index :: nat
  df_columns :: "(string \<times> cell list) list"

definition df_empty :: "dataframe \<Rightarrow> bool" where
  "df_empty df \<longleftrightarrow> df_index df = 0 \<or> df_columns df = []"

text \<open>\<open>df[name] = values\<close>: replaces the column, or appends it as the last one.\<close>

fun assign :: "string \<Rightarrow> cell list \<Rightarrow> (string \<times> cell list) list \<Rightarrow> (string \<times> cell list) list" where
  "assign name values [] = [(name, values)]"
| "assign name values ((k, v) # cols) =
     (if k = name then (k, values) # cols else (k, v) # assign name values cols)"

definition set_column :: "dataframe \<Rightarrow> string \<Rightarrow> cell list \<Rightarrow> dataframe" where
  "set_column df name values = df\<lparr>df_columns := assign name values (df_columns df)\<rparr>"

text \<open>\<open>df.iloc[-1]\<close>: the last row, as a series indexed by column name.\<close>

definition last_cell :: "cell list \<Rightarrow> cell" where
  "last_cell values = (case rev values of [] \<Rightarrow> None | v # _ \<Rightarrow> v)"

definition iloc_last :: "dataframe \<Rightarrow> (string \<times> cell) list" where
  "iloc_last df = map (\<lambda>(name, values). (name, last_cell values)) (df_columns df)"

text \<open>\<open>series.get(key, default)\<close>: the default only when the key is not in the index.\<close>

definition series_get :: "(string \<times> cell) list \<Rightarrow> string \<Rightarrow> cell \<Rightarrow> cell" where
  "series_get series key dflt = (case map_of series key of None \<Rightarrow> dflt | Some v \<Rightarrow> v)"

text \<open>
  \<open>series.rolling(n).mean().iloc[-1]\<close>: the mean of the last \<open>n\<close> cells; NaN when
  there are fewer than \<open>n\<close> cells or one of them is NaN.
\<close>

definition cell_value :: "cell \<Rightarrow> real" where
  "cell_value c = (case c of None \<Rightarrow> 0 | Some x \<Rightarrow> x)"

definition rolling_mean_last :: "nat \<Rightarrow> cell list \<Rightarrow> cell" where
  "rolling_mean_last n values =
     (let window = drop (length values - n) values
      in if length values < n \<or> list_ex (\<lambda>c. c = None) window then None
         else Some (sum_list (map cell_value window) / real n))"

text \<open>Float arithmetic and comparison with NaN: NaN propagates, comparisons are false.\<close>

definition cell_mul :: "real \<Rightarrow> cell \<Rightarrow> cell" where
  "cell_mul k c = (case c of None \<Rightarrow> None | Some x \<Rightarrow> Some (k * x))"

definition cell_add :: "real \<Rightarrow> cell \<Rightarrow> cell" where
  "cell_add a c = (case c of None \<Rightarrow> None | Some x \<Rightarrow> Some (a + x))"

definition cell_sub :: "real \<Rightarrow> cell \<Rightarrow> cell" where
  "cell_sub a c = (case c of None \<Rightarrow> None | Some x \<Rightarrow> Some (a - x))"

definition cell_quot :: "cell \<Rightarrow> cell \<Rightarrow> cell" where
  "cell_quot a b = (case (a, b) of (Some x, Some y) \<Rightarrow> Some (x / y) | _ \<Rightarrow> None)"

definition cell_gt :: "cell \<Rightarrow> cell \<Rightarrow> bool" where
  "cell_gt a b = (case (a, b) of (Some x, Some y) \<Rightarrow> x > y | _ \<Rightarrow> False)"

definition cell_lt :: "cell \<Rightarrow> cell \<Rightarrow> bool" where
  "cell_lt a b = (case (a, b) of (Some x, Some y) \<Rightarrow> x < y | _ \<Rightarrow> False)"

text \<open>
  \<open>TechnicalIndicators.add_atr\<close>. The argument \<open>ta_atr\<close> is the library function
  \<open>pandas_ta.atr(high, low, close, length)\<close>. The result goes into the column
  \<open>atr\<close>. Reading a missing input column raises \<open>KeyError\<close>.
\<close>

definition add_atr ::
  "(cell list \<Rightarrow> cell list \<Rightarrow> cell list \<Rightarrow> nat \<Rightarrow> cell list) \<Rightarrow> dataframe \<Rightarrow> nat
     \<Rightarrow> error + dataframe" where
  "add_atr ta_atr df period =
     (case map_of (df_columns df) ''high'' of
        None \<Rightarrow> Inl (KeyError ''high'')
      | Some high \<Rightarrow>
     (case map_of (df_columns df) ''low'' of
        None \<Rightarrow> Inl (KeyError ''low'')
      | Some low \<Rightarrow>
     (case map_of (df_columns df) ''close'' of
        None \<Rightarrow> Inl (KeyError ''close'')
      | Some close \<Rightarrow> Inr (set_column df ''atr'' (ta_atr high low close period)))))"


section \<open>Bollinger Band Breakout (strategies/marketplace/bollinger_breakout.py)\<close>

text \<open>
  \<open>BollingerBreakoutStrategy.analyze\<close>. The reason keeps the fixed text of each
  message; the numbers the f-strings format into it are left out. The signal's prices
  are cells: the ATR read from the table may be NaN.
\<close>

definition volume_threshold :: real where
  "volume_threshold = 1.5"

definition join_reasons :: "string list \<Rightarrow> string" where
  "join_reasons rs = (case rs of [] \<Rightarrow> [] | r # rest \<Rightarrow> r @ concat (map (\<lambda>x. ''; '' @ x) rest))"

definition analyze :: "string \<Rightarrow> (string \<Rightarrow> dataframe option) \<Rightarrow> real \<Rightarrow> cell trading_signal" where
  "analyze symbol data current_price' =
     (let insufficient = \<lparr>signal = HOLD, confidence = 0, reason = ''Insufficient data'',
                           sg_entry_price = Some (Some current_price'),
                           sg_stop_loss = None, sg_take_profit = None\<rparr>
      in case data ''1h'' of
           None \<Rightarrow> insufficient
         | Some df \<Rightarrow>
             if df_empty df \<or> df_index df < 20 then insufficient
             else
               (let latest = iloc_last df;
                    bb_upper = series_get latest ''bb_upper'' (Some (current_price' * 1.02));
                    bb_lower = series_get latest ''bb_lower'' (Some (current_price' * 0.98));
                    volume = series_get latest ''volume'' (Some 0);
                    avg_volume = (case map_of (df_columns df) ''volume'' of
                                    Some values \<Rightarrow> rolling_mean_last 20 values
                                  | None \<Rightarrow> Some 1);
                    volume_ratio = (if cell_gt avg_volume (Some 0)
                                    then cell_quot volume avg_volume else Some 1);
                    strong = cell_gt volume_ratio (Some volume_threshold);
                    (reasons, confidence', signal_type') =
                      (if cell_gt (Some current_price') bb_upper
                       then (if strong
                             then ([''Price broke above upper BB'', ''Strong volume''], 40 + 30, BUY)
                             else ([''Price broke above upper BB'', ''Weak volume''], 40 + 10, HOLD))
                       else if cell_lt (Some current_price') bb_lower
                       then (if strong
                             then ([''Price broke below lower BB'', ''Strong volume''], 40 + 30, SELL)
                             else ([''Price broke below lower BB'', ''Weak volume''], 40 + 10, HOLD))
                       else ([''Price within Bollinger Bands''], 20, HOLD));
                    atr = series_get latest ''atr_14'' (Some (current_price' * 0.02));
                    stop_loss' = (if signal_type' = BUY
                                  then Some (cell_sub current_price' (cell_mul 2 atr))
                                  else if signal_type' = SELL
                                  then Some (cell_add current_price' (cell_mul 2 atr))
                                  else None);
                    take_profit' = (if signal_type' = BUY
                                    then Some (cell_add current_price' (cell_mul 3 atr))
                                    else if signal_type' = SELL
                                    then Some (cell_sub current_price' (cell_mul 3 atr))
                                    else None)
                in \<lparr>signal = signal_type', confidence = confidence',
                    reason = join_reasons reasons,
                    sg_entry_price = Some (Some current_price'),
                    sg_stop_loss = stop_loss', sg_take_profit = take_profit'\<rparr>))"


section \<open>Wallet connection API (wallet-service/main.py)\<close>

text \<open>
  \<open>str.strip()\<close> and \<open>str.lower()\<close> on code points below 256: the whitespace
  characters are 9 to 13, 28 to 32, 133 and 160; the capital letters are A to Z and
  192 to 222 without 215, each 32 below its small letter.
\<close>

definition is_space :: "char \<Rightarrow> bool" where
  "is_space c =
     (let n = of_char c :: nat
      in (9 \<le> n \<and> n \<le> 13) \<or> (28 \<le> n \<and> n \<le> 32) \<or> n = 133 \<or> n = 160)"

definition py_strip :: "string \<Rightarrow> string" where
  "py_strip s = rev (dropWhile is_space (rev (dropWhile is_space s)))"

definition py_lower_char :: "char \<Rightarrow> char" where
  "py_lower_char c =
     (let n = of_char c :: nat
      in if (65 \<le> n \<and> n \<le> 90) \<or> (192 \<le> n \<and> n \<le> 222 \<and> n \<noteq> 215)
         then char_of (n + 32) else c)"

definition py_lower :: "string \<Rightarrow> string" where
  "py_lower s = map py_lower_char s"

text \<open>The dictionary \<open>SUPPORTED_ENVIRONMENTS\<close>, in insertion order.\<close>

definition SUPPORTED_ENVIRONMENTS :: "(string \<times> string list) list" where
  "SUPPORTED_ENVIRONMENTS =
     [(''production'', [''production'', ''prod'', ''mainnet'', ''live'']),
      (''testnet'', [''testnet'', ''sandbox'', ''demo''])]"

text \<open>The loop of \<open>normalize_environment\<close> over the dictionary items, and its raise.\<close>

fun match_environment :: "(string \<times> string list) list \<Rightarrow> string \<Rightarrow> error + string" where
  "match_environment [] normalized = Inl (HTTPException 400)"
| "match_environment ((target, aliases) # items) normalized =
     (if normalized = target \<or> normalized \<in> set aliases then Inr target
      else match_environment items normalized)"

definition normalize_environment :: "string option \<Rightarrow> error + string" where
  "normalize_environment v =
     (case v of
        None \<Rightarrow> Inr ''production''
      | Some s \<Rightarrow>
          if s = [] then Inr ''production''
          else match_environment SUPPORTED_ENVIRONMENTS (py_lower (py_strip s)))"


section \<open>Trading control API: the log buffer (api_server.py)\<close>

record log_entry =
  timestamp :: string
  level :: string
  message :: string
  log_bot_execution_id :: "int option"

text \<open>
  \<open>get_bot_logs\<close>, the handler of \<open>GET /logs\<close>. \<open>caller\<close> is the user id that the
  bearer token gave; \<open>log.get("bot_execution_id")\<close> is true for an id that is present
  and not 0.
\<close>

definition attributed :: "log_entry \<Rightarrow> bool" where
  "attributed entry = (case log_bot_execution_id entry of None \<Rightarrow> False | Some i \<Rightarrow> i \<noteq> 0)"

definition get_bot_logs :: "nat \<Rightarrow> log_entry list \<Rightarrow> log_entry list" where
  "get_bot_logs caller bot_logs = filter attributed bot_logs"


section \<open>Example data\<close>

text \<open>
  A database with the row of bot execution 1 and nothing else, a manager for that
  execution and user 7, and an order the manager has just created.
\<close>

definition running_db :: db where
  "running_db = empty_db\<lparr>tbl_last_run := (\<lambda>exec_id. if exec_id = 1 then Some None else None)\<rparr>"

definition manager1 :: trading_manager where
  "manager1 = \<lparr>bot_execution_id = 1, user_id = 7\<rparr>"

definition pending_order_db :: db where
  "pending_order_db =
     snd (create_order manager1 10 running_db ''0123456789abcdef0123456789abcdef''
            ''BTC/USDT'' ''BUY'' ''LIMIT'' 3 (Some 100))"

definition pending_order :: order where
  "pending_order =
     \<lparr>o_bot_execution_id = 1, o_user_id = 7, order_id = ''ORD-0123456789AB'',
      o_symbol = ''BTC/USDT'', o_side = ''BUY'', order_type = ''LIMIT'',
      o_price = Some 100, o_quantity = 3, filled_quantity = Some 0,
      o_status = ''PENDING'', created_at = 10, filled_at = None\<rparr>"



text \<open>A database with one open position: 1 BTC bought at 100.\<close>

definition btc_position :: position where
  "btc_position =
     \<lparr>p_bot_execution_id = 1, p_user_id = 7, p_symbol = ''BTC/USDT'',
      entry_price = 100, p_quantity = 1, current_price = Some 100,
      unrealized_pnl = Some 0, stop_loss = Some 97, take_profit = Some 106,
      opened_at = 10\<rparr>"

definition btc_position_db :: db where
  "btc_position_db = running_db\<lparr>tbl_positions := [btc_position]\<rparr>"

text \<open>
  Signals, a venue that fills every market order at 100, a fresh processor, and a
  stand-in for Python's \<open>round\<close> on sizes that need no rounding.
\<close>

definition exact_round :: py_round where
  "exact_round = (\<lambda>x n. x)"

definition hold_signal :: "real trading_signal" where
  "hold_signal = \<lparr>signal = HOLD, confidence = 90, reason = ''No setup'',
     sg_entry_price = Some 100, sg_stop_loss = None, sg_take_profit = None\<rparr>"

definition buy_signal :: "real \<Rightarrow> real trading_signal" where
  "buy_signal c = \<lparr>signal = BUY, confidence = c, reason = ''RSI oversold'',
     sg_entry_price = Some 100, sg_stop_loss = Some 97, sg_take_profit = Some 106\<rparr>"

definition venue1 :: exchange where
  "venue1 = \<lparr>testnet_balance = Some 10000,
     market_order = (\<lambda>symbol side amount.
        Some \<lparr>vo_id = Bound (Some ''42''), vo_price = Bound (Some 100),
              vo_amount = Bound (Some amount), vo_other_keys = True\<rparr>)\<rparr>"

definition processor1 :: signal_processor where
  "processor1 = new_signal_processor None None empty_db"

text \<open>A position with stop-loss 95 and take-profit 110, alone in its table.\<close>

definition guarded_position :: position where
  "guarded_position =
     \<lparr>p_bot_execution_id = 1, p_user_id = 7, p_symbol = ''BTC/USDT'',
      entry_price = 100, p_quantity = 1, current_price = Some 100,
      unrealized_pnl = Some 0, stop_loss = Some 95, take_profit = Some 110,
      opened_at = 10\<rparr>"

definition guarded_db :: db where
  "guarded_db = running_db\<lparr>tbl_positions := [guarded_position]\<rparr>"

text \<open>
  A 1h table of fifty candles whose last close, 100, is above the upper band, 95, on
  four times the usual volume; an ATR library call that yields 5 after its warm-up;
  and the table with the ATR column that \<open>add_atr\<close> writes.
\<close>

definition breakout_table :: dataframe where
  "breakout_table =
     \<lparr>df_index = 50,
      df_columns =
        [(''high'', replicate 50 (Some 101)),
         (''low'', replicate 50 (Some 99)),
         (''close'', replicate 50 (Some 100)),
         (''volume'', replicate 49 (Some 100) @ [Some 400]),
         (''bb_upper'', replicate 19 None @ replicate 31 (Some 95)),
         (''bb_lower'', replicate 19 None @ replicate 31 (Some 85))]\<rparr>"

definition atr_is_five :: "cell list \<Rightarrow> cell list \<Rightarrow> cell list \<Rightarrow> nat \<Rightarrow> cell list" where
  "atr_is_five high low close period =
     replicate (period - 1) None @ replicate (length close - (period - 1)) (Some 5)"

definition atr_table :: dataframe where
  "atr_table =
     set_column breakout_table ''atr'' (replicate 13 None @ replicate 37 (Some 5))"

definition hourly :: "dataframe \<Rightarrow> string \<Rightarrow> dataframe option" where
  "hourly df = (\<lambda>timeframe. if timeframe = ''1h'' then Some df else None)"

text \<open>A log buffer: one line of system chatter, two lines of bot execution 12.\<close>

definition buffer1 :: "log_entry list" where
  "buffer1 =
     [\<lparr>timestamp = ''2025-01-01T00:00:00+00:00'', level = ''INFO'',
       message = ''Started server process'', log_bot_execution_id = None\<rparr>,
      \<lparr>timestamp = ''2025-01-01T00:00:01+00:00'', level = ''INFO'',
       message = ''Loading strategy: rsi-mean-reversion-001'',
       log_bot_execution_id = Some 12\<rparr>,
      \<lparr>timestamp = ''2025-01-01T00:00:02+00:00'', level = ''WARNING'',
       message = ''Signal confidence too low'', log_bot_execution_id = Some 12\<rparr>]"

section \<open>Rows and queries\<close>

lemma find_Some_holds: "find P xs = Some p \<Longrightarrow> P p"
  by (induction xs) (auto split: if_splits)

lemma find_Some_in_set: "find P xs = Some p \<Longrightarrow> p \<in> set xs"
  by (induction xs) (auto split: if_splits)

lemma find_update_first:
  "find P xs = Some p \<Longrightarrow> P (f p) \<Longrightarrow> find P (update_first P f xs) = Some (f p)"
  by (induction xs) (auto split: if_splits)

lemma length_update_first: "length (update_first P f xs) = length xs"
  by (induction xs) auto


lemma find_append_None:
  "find P xs = None \<Longrightarrow> find P (xs @ [y]) = (if P y then Some y else None)"
  by (induction xs) (auto split: if_splits)

lemma length_delete_first:
  "find P xs = Some p \<Longrightarrow> Suc (length (delete_first P xs)) = length xs"
  by (induction xs) (auto split: if_splits)


section \<open>Partial fills\<close>

lemma py_upper_digits: "py_upper ''0123456789ab'' = ''0123456789AB''"
  by code_simp

lemma pending_order_db_orders: "tbl_orders pending_order_db = [pending_order]"
  by (simp add: pending_order_db_def create_order_def running_db_def empty_db_def
        has_bot_execution_def manager1_def pending_order_def py_upper_digits Let_def)

text \<open>
  An Order object without the attribute \<open>average_price\<close> stops \<open>partial_fill\<close> at the
  read of \<open>order.average_price\<close>. Every object that \<open>partial_fill\<close> works on comes
  straight from its own query, so every call returns \<open>False\<close> and changes nothing.
\<close>

lemma partial_fill_body_Unset:
  "average_price ord = Unset \<Longrightarrow>
   partial_fill_body now ord fill_qty fill_price = Inl AttributeError"
  by (simp add: partial_fill_body_def getattr_def py_float_def py_or_def truthy_def
        split: option.splits)

lemma partial_fill_unchanged:
  "partial_fill now d oid fill_qty fill_price = (False, d)"
  by (simp add: partial_fill_def query_order_def partial_fill_body_Unset split: option.splits)

text \<open>
  Claim C1: a partial fill of \<open>fill_qty\<close> at \<open>fill_price\<close> sets the order's average
  price to the quantity-weighted average, its filled quantity to the sum, and its status
  to FILLED or PARTIALLY_FILLED. On the code, the order created above (3 units requested,
  none filled, price 100) is loaded without an \<open>average_price\<close> attribute, because the
  class Order declares no such column; a partial fill of 1 at 106 raises
  \<open>AttributeError\<close> inside the \<open>try\<close> block, returns \<open>False\<close>, and leaves the row
  with filled quantity 0 and status PENDING, where the claim gives filled quantity 1,
  average price 106 and status PARTIALLY_FILLED.
\<close>

theorem partial_fill_aborts_on_stored_order:
  "tbl_orders pending_order_db = [pending_order]
   \<and> query_order pending_order_db ''ORD-0123456789AB''
       = Some \<lparr>row = pending_order, average_price = Unset\<rparr>
   \<and> partial_fill_body 11 \<lparr>row = pending_order, average_price = Unset\<rparr> 1 106
       = Inl AttributeError
   \<and> partial_fill 11 pending_order_db ''ORD-0123456789AB'' 1 106 = (False, pending_order_db)
   \<and> filled_quantity pending_order = Some 0 \<and> o_status pending_order = ''PENDING''"
  by (simp add: pending_order_db_orders query_order_def has_order_id_def pending_order_def
        partial_fill_body_Unset partial_fill_unchanged)




section \<open>The order invariant\<close>















section \<open>Positions and the trade ledger\<close>

lemma btc_position_found:
  "find (position_of manager1 ''BTC/USDT'') (tbl_positions btc_position_db) = Some btc_position"
  by (simp add: btc_position_db_def btc_position_def position_of_def manager1_def)

lemma eth_position_missing:
  "find (position_of manager1 ''ETH/USDT'') (tbl_positions btc_position_db) = None"
  by (simp add: btc_position_db_def btc_position_def position_of_def manager1_def)

text \<open>
  Claim C3: a BUY fill of quantity \<open>q\<close> at \<open>price\<close> for an execution and symbol that
  already have a position \<open>p\<close> sets the position's entry price to the quantity-weighted
  average of \<open>p\<close> and the fill, sums the quantities, and leaves the stop-loss and
  take-profit of \<open>p\<close> as they were, in the same number of rows; without a position it
  appends one with the fill's price, quantity, stop-loss and take-profit. The weighted
  average exists when the summed quantity is not zero; at zero the division raises.
\<close>

theorem open_position_merges_or_creates:
  "(find (position_of tm symbol) (tbl_positions d) = Some p \<and> p_quantity p + q \<noteq> 0 \<longrightarrow>
      (\<exists>d' p'. open_position tm now d symbol (Some price) q sl tp = Inr d'
         \<and> find (position_of tm symbol) (tbl_positions d') = Some p'
         \<and> entry_price p' = (entry_price p * p_quantity p + price * q) / (p_quantity p + q)
         \<and> p_quantity p' = p_quantity p + q
         \<and> stop_loss p' = stop_loss p \<and> take_profit p' = take_profit p
         \<and> length (tbl_positions d') = length (tbl_positions d)))
   \<and> (find (position_of tm symbol) (tbl_positions d) = None \<longrightarrow>
      (\<exists>d' p'. open_position tm now d symbol (Some price) q sl tp = Inr d'
         \<and> find (position_of tm symbol) (tbl_positions d') = Some p'
         \<and> entry_price p' = price \<and> p_quantity p' = q
         \<and> stop_loss p' = sl \<and> take_profit p' = tp
         \<and> tbl_positions d' = tbl_positions d @ [p']))"
proof (intro conjI impI)
  assume a: "find (position_of tm symbol) (tbl_positions d) = Some p \<and> p_quantity p + q \<noteq> 0"
  then have P: "position_of tm symbol p" by (auto dest: find_Some_holds)
  let ?f = "\<lambda>r. r\<lparr>entry_price := (entry_price p * p_quantity p + price * q) / (p_quantity p + q),
                 p_quantity := p_quantity p + q\<rparr>"
  have "position_of tm symbol (?f p)" using P by (simp add: position_of_def)
  with a have "find (position_of tm symbol)
                 (update_first (position_of tm symbol) ?f (tbl_positions d)) = Some (?f p)"
    by (simp add: find_update_first)
  with a show "\<exists>d' p'. open_position tm now d symbol (Some price) q sl tp = Inr d'
         \<and> find (position_of tm symbol) (tbl_positions d') = Some p'
         \<and> entry_price p' = (entry_price p * p_quantity p + price * q) / (p_quantity p + q)
         \<and> p_quantity p' = p_quantity p + q
         \<and> stop_loss p' = stop_loss p \<and> take_profit p' = take_profit p
         \<and> length (tbl_positions d') = length (tbl_positions d)"
    by (simp add: open_position_def py_div_def Let_def length_update_first)
next
  assume a: "find (position_of tm symbol) (tbl_positions d) = None"
  then show "\<exists>d' p'. open_position tm now d symbol (Some price) q sl tp = Inr d'
         \<and> find (position_of tm symbol) (tbl_positions d') = Some p'
         \<and> entry_price p' = price \<and> p_quantity p' = q
         \<and> stop_loss p' = sl \<and> take_profit p' = tp
         \<and> tbl_positions d' = tbl_positions d @ [p']"
    by (simp add: open_position_def find_append_None position_of_def)
qed

text \<open>
  The position of 1 at 100, then a buy of 1 at 110: one position of 2 at 105, with its
  old stop-loss and take-profit. The same buy for another symbol: a second position.
\<close>

theorem open_position_merges_or_creates_witness:
  "find (position_of manager1 ''BTC/USDT'') (tbl_positions btc_position_db) = Some btc_position
   \<and> p_quantity btc_position + 1 \<noteq> 0
   \<and> (\<exists>d' p'. open_position manager1 11 btc_position_db ''BTC/USDT'' (Some 110) 1
                  (Some 105) (Some 120) = Inr d'
         \<and> find (position_of manager1 ''BTC/USDT'') (tbl_positions d') = Some p'
         \<and> entry_price p' = 105 \<and> p_quantity p' = 2
         \<and> stop_loss p' = Some 97 \<and> take_profit p' = Some 106
         \<and> length (tbl_positions d') = 1)
   \<and> find (position_of manager1 ''ETH/USDT'') (tbl_positions btc_position_db) = None
   \<and> (\<exists>d' p'. open_position manager1 11 btc_position_db ''ETH/USDT'' (Some 110) 1
                  (Some 105) (Some 120) = Inr d'
         \<and> find (position_of manager1 ''ETH/USDT'') (tbl_positions d') = Some p'
         \<and> entry_price p' = 110 \<and> p_quantity p' = 1
         \<and> stop_loss p' = Some 105 \<and> take_profit p' = Some 120
         \<and> tbl_positions d' = [btc_position, p'])"
proof -
  have q: "p_quantity btc_position + 1 \<noteq> 0" by (simp add: btc_position_def)
  from open_position_merges_or_creates
         [of manager1 "''BTC/USDT''" btc_position_db btc_position 1 11 110 "Some 105" "Some 120"]
       btc_position_found q
  have merged: "\<exists>d' p'. open_position manager1 11 btc_position_db ''BTC/USDT'' (Some 110) 1
                  (Some 105) (Some 120) = Inr d'
         \<and> find (position_of manager1 ''BTC/USDT'') (tbl_positions d') = Some p'
         \<and> entry_price p' = 105 \<and> p_quantity p' = 2
         \<and> stop_loss p' = Some 97 \<and> take_profit p' = Some 106
         \<and> length (tbl_positions d') = 1"
    by (simp add: btc_position_def btc_position_db_def)
  from open_position_merges_or_creates
         [of manager1 "''ETH/USDT''" btc_position_db btc_position 1 11 110 "Some 105" "Some 120"]
       eth_position_missing
  have created: "\<exists>d' p'. open_position manager1 11 btc_position_db ''ETH/USDT'' (Some 110) 1
                  (Some 105) (Some 120) = Inr d'
         \<and> find (position_of manager1 ''ETH/USDT'') (tbl_positions d') = Some p'
         \<and> entry_price p' = 110 \<and> p_quantity p' = 1
         \<and> stop_loss p' = Some 105 \<and> take_profit p' = Some 120
         \<and> tbl_positions d' = [btc_position, p']"
    by (simp add: btc_position_db_def)
  from btc_position_found q merged eth_position_missing created show ?thesis by blast
qed

text \<open>
  Claim C4: closing a position \<open>p\<close> appends one TradeHistory row whose pnl is
  (sell price - buy price) times the closed quantity, with the position's entry price as
  the buy price; its result is LOSS exactly when the pnl is at most 0 and PROFIT exactly
  when it is above 0, so a close at the entry price is a LOSS.
\<close>

theorem close_position_records_pnl_and_result:
  assumes "find (position_of tm symbol) (tbl_positions d) = Some p"
  shows "\<exists>d' t. close_position tm now d symbol (Some exit_price) q = Inr d'
           \<and> tbl_trade_history d' = tbl_trade_history d @ [t]
           \<and> buy_price t = entry_price p \<and> sell_price t = exit_price \<and> t_quantity t = q
           \<and> pnl t = (sell_price t - buy_price t) * t_quantity t
           \<and> (result t = ''LOSS'' \<longleftrightarrow> pnl t \<le> 0)
           \<and> (result t = ''PROFIT'' \<longleftrightarrow> pnl t > 0)"
  using assms by (auto simp: close_position_def Let_def)

text \<open>Bought at 100: sold at 100 is pnl 0 and LOSS, sold at 100.01 is PROFIT.\<close>

theorem close_position_records_pnl_and_result_witness:
  "find (position_of manager1 ''BTC/USDT'') (tbl_positions btc_position_db) = Some btc_position
   \<and> (\<exists>d' t. close_position manager1 12 btc_position_db ''BTC/USDT'' (Some 100) 1 = Inr d'
           \<and> tbl_trade_history d' = [t]
           \<and> buy_price t = 100 \<and> sell_price t = 100 \<and> t_quantity t = 1
           \<and> pnl t = 0 \<and> result t = ''LOSS'' \<and> result t \<noteq> ''PROFIT'')
   \<and> (\<exists>d' t. close_position manager1 12 btc_position_db ''BTC/USDT'' (Some 100.01) 1 = Inr d'
           \<and> tbl_trade_history d' = [t]
           \<and> pnl t = 0.01 \<and> result t = ''PROFIT'')"
proof -
  from close_position_records_pnl_and_result [OF btc_position_found, of 12 100 1]
  have at_entry:
    "\<exists>d' t. close_position manager1 12 btc_position_db ''BTC/USDT'' (Some 100) 1 = Inr d'
           \<and> tbl_trade_history d' = [t]
           \<and> buy_price t = 100 \<and> sell_price t = 100 \<and> t_quantity t = 1
           \<and> pnl t = 0 \<and> result t = ''LOSS'' \<and> result t \<noteq> ''PROFIT''"
    by (auto simp: btc_position_def btc_position_db_def running_db_def empty_db_def)
  from close_position_records_pnl_and_result [OF btc_position_found, of 12 "100.01" 1]
  have above:
    "\<exists>d' t. close_position manager1 12 btc_position_db ''BTC/USDT'' (Some 100.01) 1 = Inr d'
           \<and> tbl_trade_history d' = [t]
           \<and> pnl t = 0.01 \<and> result t = ''PROFIT''"
    by (auto simp: btc_position_def btc_position_db_def running_db_def empty_db_def)
  from btc_position_found at_entry above show ?thesis by blast
qed

text \<open>
  Claim C10: a SELL fill whose quantity \<open>q\<close> is above the quantity the position \<open>p\<close>
  holds still appends a TradeHistory row; the row's quantity is \<open>q\<close> and its pnl is
  (exit price - entry price) times \<open>q\<close>, so both exceed what the position held (the pnl
  when the exit is above the entry); then the position row is deleted.
\<close>

theorem close_position_oversized_sell:
  assumes "find (position_of tm symbol) (tbl_positions d) = Some p"
    and "q > p_quantity p"
  shows "\<exists>d' t. close_position tm now d symbol (Some exit_price) q = Inr d'
           \<and> tbl_trade_history d' = tbl_trade_history d @ [t]
           \<and> t_quantity t = q \<and> t_quantity t > p_quantity p
           \<and> pnl t = (exit_price - entry_price p) * q
           \<and> (exit_price > entry_price p \<longrightarrow> pnl t > (exit_price - entry_price p) * p_quantity p)
           \<and> tbl_positions d' = delete_first (position_of tm symbol) (tbl_positions d)
           \<and> Suc (length (tbl_positions d')) = length (tbl_positions d)"
  using assms by (auto simp: close_position_def Let_def length_delete_first)

text \<open>A position of 1 bought at 100, a sell of 5 at 110: the ledger records 5 and pnl 50.\<close>

theorem close_position_oversized_sell_witness:
  "find (position_of manager1 ''BTC/USDT'') (tbl_positions btc_position_db) = Some btc_position
   \<and> (5::real) > p_quantity btc_position \<and> (110::real) > entry_price btc_position
   \<and> (\<exists>d' t. close_position manager1 12 btc_position_db ''BTC/USDT'' (Some 110) 5 = Inr d'
           \<and> tbl_trade_history d' = [t]
           \<and> t_quantity t = 5 \<and> pnl t = 50 \<and> pnl t > (110 - 100) * 1
           \<and> tbl_positions d' = [])"
proof -
  have big: "(5::real) > p_quantity btc_position"
    and up: "(110::real) > entry_price btc_position"
    by (simp_all add: btc_position_def)
  from close_position_oversized_sell [OF btc_position_found big, of 12 110] up
  have "\<exists>d' t. close_position manager1 12 btc_position_db ''BTC/USDT'' (Some 110) 5 = Inr d'
           \<and> tbl_trade_history d' = [t]
           \<and> t_quantity t = 5 \<and> pnl t = 50 \<and> pnl t > (110 - 100) * 1
           \<and> tbl_positions d' = []"
    by (auto simp: btc_position_def btc_position_db_def running_db_def empty_db_def position_of_def manager1_def)
  with btc_position_found big up show ?thesis by blast
qed


section \<open>The execution gates\<close>

text \<open>
  Claim C5: \<open>execute_signal\<close> returns \<open>False\<close> and leaves the processor, its database
  and the list of submitted orders as they were when the signal is HOLD, and likewise
  when the confidence is below 50. A BUY signal with confidence exactly 50 passes both
  gates: a market buy is submitted exactly when the order size (given, or else
  calculated) is positive and the position gate \<open>should_execute\<close> lets it through.
\<close>

theorem execute_signal_gates:
  "(signal sg = HOLD \<longrightarrow>
      execute_signal round' exch now uuid_hex sp symbol sg order_size = (False, sp))
   \<and> (confidence sg < 50 \<longrightarrow>
      execute_signal round' exch now uuid_hex sp symbol sg order_size = (False, sp))
   \<and> (signal sg = BUY \<and> confidence sg = 50 \<longrightarrow>
      submitted (snd (execute_signal round' exch now uuid_hex sp symbol sg order_size)) =
        (if 0 < (case order_size of None \<Rightarrow> calculate_order_size round' exch sg | Some given \<Rightarrow> given)
            \<and> should_execute sp symbol sg
         then submitted sp @
                [(symbol, ''buy'',
                  case order_size of None \<Rightarrow> calculate_order_size round' exch sg | Some given \<Rightarrow> given)]
         else submitted sp))"
  by (auto simp: execute_signal_def min_confidence_def Let_def update_position_def
           split: option.splits)

text \<open>
  A HOLD signal of confidence 90 and a BUY signal of confidence 49 change nothing; the
  same BUY signal at confidence 50, with size 0.5 and no tracked position, is submitted.
\<close>

theorem execute_signal_gates_witness:
  "signal hold_signal = HOLD
   \<and> execute_signal exact_round venue1 5 ''ab'' processor1 ''BTC/USDT'' hold_signal (Some 0.5)
       = (False, processor1)
   \<and> confidence (buy_signal 49) < 50
   \<and> execute_signal exact_round venue1 5 ''ab'' processor1 ''BTC/USDT'' (buy_signal 49) (Some 0.5)
       = (False, processor1)
   \<and> signal (buy_signal 50) = BUY \<and> confidence (buy_signal 50) = 50
   \<and> submitted (snd (execute_signal exact_round venue1 5 ''ab'' processor1 ''BTC/USDT'' (buy_signal 50)
                        (Some 0.5)))
       = [(''BTC/USDT'', ''buy'', 0.5)]"
proof -
  have h: "signal hold_signal = HOLD" by (simp add: hold_signal_def)
  have l: "confidence (buy_signal 49) < 50" by (simp add: buy_signal_def)
  have b: "signal (buy_signal 50) = BUY \<and> confidence (buy_signal 50) = 50"
    by (simp add: buy_signal_def)
  have s: "should_execute processor1 ''BTC/USDT'' (buy_signal 50)"
    by (simp add: should_execute_def buy_signal_def processor1_def new_signal_processor_def)
  have e: "submitted processor1 = []" by (simp add: processor1_def new_signal_processor_def)
  from execute_signal_gates
         [of hold_signal exact_round venue1 5 "''ab''" processor1 "''BTC/USDT''" "Some 0.5"] h
  have 1: "execute_signal exact_round venue1 5 ''ab'' processor1 ''BTC/USDT'' hold_signal (Some 0.5)
       = (False, processor1)" by blast
  from execute_signal_gates
         [of "buy_signal 49" exact_round venue1 5 "''ab''" processor1 "''BTC/USDT''" "Some 0.5"] l
  have 2: "execute_signal exact_round venue1 5 ''ab'' processor1 ''BTC/USDT'' (buy_signal 49) (Some 0.5)
       = (False, processor1)" by blast
  from execute_signal_gates
         [of "buy_signal 50" exact_round venue1 5 "''ab''" processor1 "''BTC/USDT''" "Some 0.5"] b s e
  have 3: "submitted (snd (execute_signal exact_round venue1 5 ''ab'' processor1 ''BTC/USDT''
                             (buy_signal 50) (Some 0.5))) = [(''BTC/USDT'', ''buy'', 0.5)]"
    by simp
  from h l b 1 2 3 show ?thesis by blast
qed

text \<open>With the example venue the submitted order is also reported as executed.\<close>

lemma execute_signal_buy_at_threshold:
  "fst (execute_signal exact_round venue1 5 ''ab'' processor1 ''BTC/USDT'' (buy_signal 50) (Some 0.5))"
  by (simp add: execute_signal_def min_confidence_def buy_signal_def should_execute_def
        processor1_def new_signal_processor_def venue1_def trading_manager_of_def
        dict_get_def dict_empty_def Let_def)


section \<open>Stop-loss and take-profit triggers\<close>

text \<open>The two comparisons are the ones of the specification: at or below a stop-loss
  that is set, at or above a take-profit that is set. Set means neither \<open>None\<close> nor 0.\<close>

lemma stop_loss_reached_iff:
  "stop_loss p = Some sl \<Longrightarrow> sl \<noteq> 0 \<Longrightarrow> stop_loss_reached p cp \<longleftrightarrow> cp \<le> sl"
  by (simp add: stop_loss_reached_def truthy_def)

lemma take_profit_reached_iff:
  "take_profit p = Some tp \<Longrightarrow> tp \<noteq> 0 \<Longrightarrow> take_profit_reached p cp \<longleftrightarrow> cp \<ge> tp"
  by (simp add: take_profit_reached_def truthy_def)

text \<open>The forced exit raises at the lookup of the method, whatever its arguments.\<close>

lemma forced_sell_raises: "forced_sell symbol cp why = Inl AttributeError"
  by (simp add: forced_sell_def execute_sell_order_def getattr_def)

text \<open>A row whose stop-loss or take-profit is reached is left as it was: no sell call,
  nothing counted as closed, and no new price or pnl either.\<close>

lemma monitor_position_triggered:
  "stop_loss_reached p cp \<or> take_profit_reached p cp \<Longrightarrow>
   monitor_position (Some cp) p = (p, [], 0)"
  by (auto simp: monitor_position_def monitor_body_def forced_sell_raises py_div_def Let_def)

text \<open>A row that reaches neither has its current price and unrealized pnl written.\<close>

lemma monitor_position_untriggered:
  "cp \<noteq> 0 \<Longrightarrow> entry_price p \<noteq> 0 \<Longrightarrow>
   \<not> stop_loss_reached p cp \<Longrightarrow> \<not> take_profit_reached p cp \<Longrightarrow>
   monitor_position (Some cp) p =
     (p\<lparr>current_price := Some cp,
        unrealized_pnl := Some ((cp - entry_price p) * p_quantity p)\<rparr>, [], 0)"
  by (simp add: monitor_position_def monitor_body_def py_div_def Let_def)

lemma monitor_position_guarded_between:
  "monitor_position (Some 95.01) guarded_position =
     (guarded_position\<lparr>current_price := Some 95.01, unrealized_pnl := Some (- 4.99)\<rparr>, [], 0)
   \<and> monitor_position (Some 109.99) guarded_position =
     (guarded_position\<lparr>current_price := Some 109.99, unrealized_pnl := Some 9.99\<rparr>, [], 0)"
  by (simp add: monitor_position_untriggered stop_loss_reached_def take_profit_reached_def
        truthy_def guarded_position_def)

text \<open>No iteration makes a sell call or counts a closed position.\<close>

lemma monitor_position_no_sell: "snd (monitor_position price p) = ([], 0)"
  by (auto simp: monitor_position_def monitor_body_def forced_sell_raises py_div_def Let_def
        split: option.splits)

lemma monitor_rows_no_sell: "snd (monitor_rows exec_id latest_price ps) = ([], 0)"
proof (induction ps)
  case Nil
  show ?case by simp
next
  case (Cons p ps)
  obtain ps' calls n where r: "monitor_rows exec_id latest_price ps = (ps', calls, n)"
    by (cases "monitor_rows exec_id latest_price ps") auto
  obtain p' calls' n' where m: "monitor_position (latest_price (p_symbol p)) p = (p', calls', n')"
    by (cases "monitor_position (latest_price (p_symbol p)) p") auto
  from Cons.IH r have "calls = [] \<and> n = 0" by simp
  moreover from monitor_position_no_sell [of "latest_price (p_symbol p)" p] m
  have "calls' = [] \<and> n' = 0" by simp
  ultimately show ?case using r m by simp
qed

lemma monitor_positions_closes_nothing:
  "fst (monitor_positions exec_id latest_price d) = 0
   \<and> snd (snd (monitor_positions exec_id latest_price d)) = []"
proof -
  obtain ps' calls n where r:
    "monitor_rows exec_id latest_price (tbl_positions d) = (ps', calls, n)"
    by (cases "monitor_rows exec_id latest_price (tbl_positions d)") auto
  with monitor_rows_no_sell [of exec_id latest_price "tbl_positions d"]
  have "calls = [] \<and> n = 0" by simp
  with r show ?thesis by (simp add: monitor_positions_def)
qed

text \<open>
  Claim C6 does not hold of the code. The position of execution 1 has entry price 100,
  quantity 1, stop-loss 95 and take-profit 110. At an observed price of 95 the
  stop-loss condition holds, and the forced sell raises \<open>AttributeError\<close> at the lookup
  of \<open>_execute_sell_order\<close>, which the class SignalProcessor does not define. The
  \<open>except\<close> clause of the loop takes the exception: no sell is made, no position is
  counted as closed, and the row keeps its old current price and unrealized pnl. The
  same happens at an observed price of 110, where the take-profit condition holds. A
  whole monitoring pass at price 95 returns 0 and leaves the database as it was.
\<close>

theorem forced_sell_is_never_made:
  "stop_loss_reached guarded_position 95
   \<and> forced_sell ''BTC/USDT'' 95 ''Stop Loss Triggered'' = Inl AttributeError
   \<and> monitor_body (Some 95) guarded_position = Inl AttributeError
   \<and> monitor_position (Some 95) guarded_position = (guarded_position, [], 0)
   \<and> take_profit_reached guarded_position 110
   \<and> forced_sell ''BTC/USDT'' 110 ''Take Profit Triggered'' = Inl AttributeError
   \<and> monitor_body (Some 110) guarded_position = Inl AttributeError
   \<and> monitor_position (Some 110) guarded_position = (guarded_position, [], 0)
   \<and> monitor_positions 1 (\<lambda>symbol. Some 95) guarded_db = (0, guarded_db, [])"
  by (simp add: monitor_positions_def monitor_position_def monitor_body_def forced_sell_def
        execute_sell_order_def getattr_def py_div_def stop_loss_reached_def
        take_profit_reached_def truthy_def guarded_position_def guarded_db_def Let_def)


section \<open>Bollinger breakout stop and target\<close>

lemma map_of_assign:
  "map_of (assign name values cols) k = (if k = name then Some values else map_of cols k)"
  by (induction cols) auto

text \<open>\<open>add_atr\<close> writes the column \<open>atr\<close> and no other.\<close>

lemma add_atr_keeps_other_columns:
  "add_atr ta_atr df period = Inr df' \<Longrightarrow> k \<noteq> ''atr'' \<Longrightarrow>
   map_of (df_columns df') k = map_of (df_columns df) k"
  by (auto simp: add_atr_def set_column_def map_of_assign split: option.splits)

lemma map_of_last_row:
  "map_of (map (\<lambda>(name, values). (name, last_cell values)) cols) k
     = map_option last_cell (map_of cols k)"
  by (induction cols) auto

text \<open>
  On a table without a column \<open>atr_14\<close>, every BUY and SELL signal of the strategy has
  its stop and target at 2 and 3 times 2% of the price, whatever the table's \<open>atr\<close>
  column holds.
\<close>

lemma analyze_without_atr_14:
  assumes "map_of (df_columns df) ''atr_14'' = None"
  shows "(signal (analyze symbol (hourly df) cp) = BUY \<longrightarrow>
            sg_stop_loss (analyze symbol (hourly df) cp) = Some (Some (cp - 2 * (cp * 0.02)))
            \<and> sg_take_profit (analyze symbol (hourly df) cp) = Some (Some (cp + 3 * (cp * 0.02))))
       \<and> (signal (analyze symbol (hourly df) cp) = SELL \<longrightarrow>
            sg_stop_loss (analyze symbol (hourly df) cp) = Some (Some (cp + 2 * (cp * 0.02)))
            \<and> sg_take_profit (analyze symbol (hourly df) cp) = Some (Some (cp - 3 * (cp * 0.02))))"
proof -
  have "series_get (iloc_last df) ''atr_14'' (Some (cp * 0.02)) = Some (cp * 0.02)"
    using assms by (simp add: series_get_def iloc_last_def map_of_last_row)
  then show ?thesis
    by (simp add: analyze_def hourly_def Let_def cell_sub_def cell_add_def cell_mul_def)
qed

text \<open>
  Claim C7: a Bollinger Breakout BUY signal has its stop-loss at the price minus 2 times
  the table's ATR and its take-profit at the price plus 3 times it, the 2% default being
  used only when the ATR is unavailable. On the code, the indicator engine writes the
  ATR into the column \<open>atr\<close> and the strategy reads the column \<open>atr_14\<close>: for the
  breakout table, whose ATR is 5 at the price 100, the signal is BUY with stop-loss 96
  and take-profit 106, where the claim gives 90 and 115.
\<close>

theorem bollinger_breakout_ignores_atr_column:
  "add_atr atr_is_five breakout_table 14 = Inr atr_table
   \<and> series_get (iloc_last atr_table) ''atr'' None = Some 5
   \<and> analyze ''BTC/USDT'' (hourly atr_table) 100 =
      \<lparr>signal = BUY, confidence = 70,
       reason = ''Price broke above upper BB; Strong volume'',
       sg_entry_price = Some (Some 100),
       sg_stop_loss = Some (Some 96), sg_take_profit = Some (Some 106)\<rparr>"
  by code_simp


section \<open>Environment normalization\<close>

text \<open>
  Claim C8: for a non-empty environment string, the trimmed and lower-cased value is
  looked up: one of production, prod, mainnet, live gives \<open>production\<close>; one of testnet,
  sandbox, demo gives \<open>testnet\<close>; anything else raises the HTTP error 400. (\<open>None\<close>
  and the empty string give \<open>production\<close>.)
\<close>

theorem normalize_environment_aliases:
  "normalize_environment None = Inr ''production''
   \<and> normalize_environment (Some []) = Inr ''production''
   \<and> (s \<noteq> [] \<longrightarrow>
       (py_lower (py_strip s) \<in> {''production'', ''prod'', ''mainnet'', ''live''} \<longrightarrow>
          normalize_environment (Some s) = Inr ''production'')
     \<and> (py_lower (py_strip s) \<in> {''testnet'', ''sandbox'', ''demo''} \<longrightarrow>
          normalize_environment (Some s) = Inr ''testnet'')
     \<and> (py_lower (py_strip s) \<notin> {''production'', ''prod'', ''mainnet'', ''live'',
                                   ''testnet'', ''sandbox'', ''demo''} \<longrightarrow>
          normalize_environment (Some s) = Inl (HTTPException 400)))"
  by (auto simp: normalize_environment_def SUPPORTED_ENVIRONMENTS_def)

lemma normalized_examples:
  "py_lower (py_strip ''PROD'') = ''prod''"
  "py_lower (py_strip '' Live '') = ''live''"
  "py_lower (py_strip ''mainnet'') = ''mainnet''"
  "py_lower (py_strip ''Sandbox'') = ''sandbox''"
  "py_lower (py_strip ''DEMO'') = ''demo''"
  "py_lower (py_strip ''staging'') = ''staging''"
  by code_simp+

theorem normalize_environment_aliases_witness:
  "''PROD'' \<noteq> [] \<and> py_lower (py_strip ''PROD'') = ''prod''
   \<and> normalize_environment (Some ''PROD'') = Inr ''production''
   \<and> py_lower (py_strip '' Live '') = ''live''
   \<and> normalize_environment (Some '' Live '') = Inr ''production''
   \<and> normalize_environment (Some ''mainnet'') = Inr ''production''
   \<and> py_lower (py_strip ''Sandbox'') = ''sandbox''
   \<and> normalize_environment (Some ''Sandbox'') = Inr ''testnet''
   \<and> normalize_environment (Some ''DEMO'') = Inr ''testnet''
   \<and> py_lower (py_strip ''staging'') = ''staging''
   \<and> normalize_environment (Some ''staging'') = Inl (HTTPException 400)"
  using normalize_environment_aliases [of "''PROD''"]
        normalize_environment_aliases [of "'' Live ''"]
        normalize_environment_aliases [of "''mainnet''"]
        normalize_environment_aliases [of "''Sandbox''"]
        normalize_environment_aliases [of "''DEMO''"]
        normalize_environment_aliases [of "''staging''"]
  by (simp add: normalized_examples)


section \<open>The log endpoint\<close>

text \<open>
  Claim C9: \<open>GET /logs\<close> returns exactly the buffered entries that carry an execution
  id, in buffer order, and the same list for every caller: an attributed entry is
  returned to any caller, whoever owns the execution, and an entry without an execution
  id is returned to none. An id counts as carried when it is not \<open>None\<close> and not 0;
  execution ids are database keys, which start at 1, and then the entries returned are
  those whose id is not \<open>None\<close>.
\<close>

theorem get_bot_logs_ignores_caller:
  "get_bot_logs caller bot_logs = filter attributed bot_logs
   \<and> get_bot_logs caller bot_logs = get_bot_logs other_caller bot_logs
   \<and> (entry \<in> set bot_logs \<and> attributed entry \<longrightarrow>
        entry \<in> set (get_bot_logs other_caller bot_logs))
   \<and> (entry \<in> set bot_logs \<and> log_bot_execution_id entry = None \<longrightarrow>
        entry \<notin> set (get_bot_logs caller bot_logs))
   \<and> (list_all (\<lambda>e. log_bot_execution_id e \<noteq> Some 0) bot_logs \<longrightarrow>
        get_bot_logs caller bot_logs = filter (\<lambda>e. log_bot_execution_id e \<noteq> None) bot_logs)"
proof -
  have "list_all (\<lambda>e. log_bot_execution_id e \<noteq> Some 0) bot_logs \<Longrightarrow>
        filter attributed bot_logs = filter (\<lambda>e. log_bot_execution_id e \<noteq> None) bot_logs"
    by (induction bot_logs) (auto simp: attributed_def split: option.splits)
  then show ?thesis
    by (auto simp: get_bot_logs_def attributed_def)
qed

text \<open>Users 7 and 8 both receive the two lines of execution 12 and not the chatter.\<close>

theorem get_bot_logs_ignores_caller_witness:
  "hd (tl buffer1) \<in> set buffer1 \<and> attributed (hd (tl buffer1))
   \<and> hd (tl buffer1) \<in> set (get_bot_logs 8 buffer1)
   \<and> hd buffer1 \<in> set buffer1 \<and> log_bot_execution_id (hd buffer1) = None
   \<and> hd buffer1 \<notin> set (get_bot_logs 7 buffer1)
   \<and> list_all (\<lambda>e. log_bot_execution_id e \<noteq> Some 0) buffer1
   \<and> get_bot_logs 7 buffer1 = tl buffer1
   \<and> get_bot_logs 7 buffer1 = get_bot_logs 8 buffer1"
proof -
  have a: "hd (tl buffer1) \<in> set buffer1 \<and> attributed (hd (tl buffer1))"
    and b: "hd buffer1 \<in> set buffer1 \<and> log_bot_execution_id (hd buffer1) = None"
    and c: "list_all (\<lambda>e. log_bot_execution_id e \<noteq> Some 0) buffer1"
    and d: "filter (\<lambda>e. log_bot_execution_id e \<noteq> None) buffer1 = tl buffer1"
    by (simp_all add: buffer1_def attributed_def)
  from get_bot_logs_ignores_caller [of 7 buffer1 8 "hd (tl buffer1)"] a
  have 1: "hd (tl buffer1) \<in> set (get_bot_logs 8 buffer1)" by blast
  from get_bot_logs_ignores_caller [of 7 buffer1 8 "hd buffer1"] b
  have 2: "hd buffer1 \<notin> set (get_bot_logs 7 buffer1)" by blast
  from get_bot_logs_ignores_caller [of 7 buffer1 8 "hd buffer1"] c
  have "get_bot_logs 7 buffer1 = filter (\<lambda>e. log_bot_execution_id e \<noteq> None) buffer1"
    by blast
  with d have 3: "get_bot_logs 7 buffer1 = tl buffer1" by (simp only:)
  from get_bot_logs_ignores_caller [of 7 buffer1 8 "hd buffer1"]
  have 4: "get_bot_logs 7 buffer1 = get_bot_logs 8 buffer1" by blast
  from a b c 1 2 3 4 show ?thesis by blast
qed

end
